theory Spec2Isabelle
  imports Main "HOL-Library.Sublist"
begin

section \<open>Package exec: the glue between terraform's commands and the installer\<close>

text \<open>
  The embedding follows \<^verbatim>\<open>pkg/terraform/exec/exec.go\<close>. Everything the file uses from
  other packages (terraform's logging, version and command packages, logutils, go-plugin,
  os, os/signal, bufio, path/filepath, runtime) and the package-level names declared in
  sibling files (\<^verbatim>\<open>ignoreSignals\<close>, \<^verbatim>\<open>forwardSignals\<close>, \<^verbatim>\<open>configDir\<close>) is a field of
  the record \<open>env\<close>: the functions of exec.go are modelled for every value of these.
  Process-wide mutable state (\<^verbatim>\<open>os.Stderr\<close>, the output of package log, the data written to
  files and to the caller's writers) is the record \<open>proc\<close>, passed through explicitly.
\<close>

subsection \<open>Values\<close>

type_synonym os_Signal = nat

text \<open>An \<^verbatim>\<open>*os.File\<close>, by identity: a descriptor of the process or an end of pipe \<open>n\<close>.\<close>

datatype os_File = Fd nat | PipeR nat | PipeW nat

text \<open>
  The \<^verbatim>\<open>io.Writer\<close> values that occur: \<^verbatim>\<open>ioutil.Discard\<close>, a
  \<^verbatim>\<open>&logutils.LevelFilter{Levels, MinLevel, Writer}\<close>, a file, and a writer of the caller
  (a buffer, say), known by its identity \<open>n\<close>.
\<close>

datatype io_Writer =
    Discard
  | LevelFilter "string list" string io_Writer
  | FileWriter os_File
  | Sink nat

record BasicUi =
  Writer :: io_Writer
  ErrorWriter :: io_Writer

text \<open>\<^verbatim>\<open>command.Meta\<close>, with the fields runner sets; \<open>ShutdownCh\<close> is the channel's identity.\<close>

record Meta =
  Color :: bool
  GlobalPluginDirs :: "string list"
  Ui :: BasicUi
  OverrideDataDir :: string
  ShutdownCh :: nat

text \<open>
  A \<^verbatim>\<open>cli.Command\<close>: \<^verbatim>\<open>&command.ApplyCommand{Meta, Destroy}\<close> (the flag is false when
  the literal leaves it out) or \<^verbatim>\<open>&command.InitCommand{Meta}\<close>.
\<close>

datatype cli_Command = ApplyCommand Meta bool | InitCommand Meta

type_synonym cmdFunc = "Meta \<Rightarrow> cli_Command"

text \<open>
  What a command's \<^verbatim>\<open>Run\<close> can do to the resources runner manages, in program order:
  write through the Ui of its Meta, write to the file \<^verbatim>\<open>os.Stderr\<close> names at that moment,
  print through package log, and (nothing in Go forbids it) assign \<^verbatim>\<open>os.Stderr\<close>.
\<close>

datatype action =
    Ui_Output string
  | Ui_Error string
  | Stderr_Write string
  | Log_Print string
  | Stderr_Assign os_File

text \<open>How a call of runner ends: it returns an int, or it panics.\<close>

datatype outcome = Return int | Panic

datatype event =
    Ev_log_SetOutput io_Writer
  | Ev_CleanupClients
  | Ev_signal_Notify nat "os_Signal list"
  | Ev_go_forwarder nat nat
  | Ev_signal_Reset "os_Signal list"
  | Ev_Meta Meta
  | Ev_os_Pipe os_File os_File
  | Ev_os_Pipe_failed string
  | Ev_go_scanner os_File io_Writer
  | Ev_Run cli_Command "string list"
  | Ev_Close os_File

subsection \<open>The environment and the process state\<close>

record env =
  logging_LogLevel :: string
  logging_ValidLevels :: "string list"
  LevelFilter_Check :: "string list \<Rightarrow> string \<Rightarrow> string \<Rightarrow> bool"
  ignoreSignals :: "os_Signal list"
  forwardSignals :: "os_Signal list"
  configDir :: "string + string"
  runtime_GOOS :: string
  runtime_GOARCH :: string
  filepath_Join :: "string list \<Rightarrow> string"
  os_Pipe_error :: "string option"
  Scanner_tokens :: "string \<Rightarrow> string list"
  Command_Run :: "cli_Command \<Rightarrow> string list \<Rightarrow> action list \<times> int"
  version_Version :: string
  version_Prerelease :: string

text \<open>
  \<open>logging_LogLevel\<close> is what \<^verbatim>\<open>logging.LogLevel()\<close> returns, \<open>LevelFilter_Check levels min line\<close>
  is \<^verbatim>\<open>(*LevelFilter).Check\<close>, \<open>configDir\<close> is the pair \<^verbatim>\<open>configDir()\<close> returns
  (\<open>Inl\<close> the error's text), \<open>os_Pipe_error\<close> is the error of \<^verbatim>\<open>os.Pipe()\<close> if it fails,
  \<open>Scanner_tokens\<close> gives the tokens a \<^verbatim>\<open>bufio.Scanner\<close> yields on a stream, and
  \<open>Command_Run c args\<close> is what \<^verbatim>\<open>c.Run(args)\<close> does and the int it returns.
\<close>

record proc =
  os_Stderr :: os_File
  log_output :: io_Writer
  registry :: "string \<rightharpoonup> cmdFunc"
  written :: "os_File \<Rightarrow> string"
  sinks :: "nat \<Rightarrow> string"
  fresh :: nat
  trace :: "event list"

text \<open>
  \<open>registry\<close> is the package-level variable \<^verbatim>\<open>commands\<close>; \<open>written f\<close> and \<open>sinks n\<close> are the
  bytes written so far to file \<open>f\<close> and to the caller's writer \<open>n\<close>; \<open>fresh\<close> is the next
  unused identity for a pipe or channel; \<open>trace\<close> records, in order, the calls that act on
  process-wide resources.
\<close>

definition emit :: "event \<Rightarrow> proc \<Rightarrow> proc" where
  "emit e s = s\<lparr>trace := trace s @ [e]\<rparr>"

subsection \<open>The command table\<close>

definition commands :: "string \<rightharpoonup> cmdFunc" where
  "commands =
     [''apply'' \<mapsto> (\<lambda>meta. ApplyCommand meta False),
      ''destroy'' \<mapsto> (\<lambda>meta. ApplyCommand meta True),
      ''init'' \<mapsto> (\<lambda>meta. InitCommand meta)]"

subsection \<open>Writers\<close>

text \<open>
  \<^verbatim>\<open>fmt.Fprintf(w, ...)\<close> with the formatted text \<open>t\<close>. Discard drops it; a LevelFilter
  passes it to its Writer when Check accepts the line and drops it otherwise.
\<close>

fun Fprintf :: "env \<Rightarrow> io_Writer \<Rightarrow> string \<Rightarrow> proc \<Rightarrow> proc" where
  "Fprintf env Discard t s = s"
| "Fprintf env (LevelFilter levels minLevel w) t s =
     (if LevelFilter_Check env levels minLevel t then Fprintf env w t s else s)"
| "Fprintf env (FileWriter f) t s = s\<lparr>written := (written s)(f := written s f @ t)\<rparr>"
| "Fprintf env (Sink n) t s = s\<lparr>sinks := (sinks s)(n := sinks s n @ t)\<rparr>"

subsection \<open>The shutdown channel\<close>

text \<open>
  The channels and the goroutine that \<^verbatim>\<open>makeShutdownCh\<close> creates. \<open>registered\<close> is the list
  given to \<^verbatim>\<open>signal.Notify\<close>; \<open>signalCh\<close> is the content of the buffered channel (capacity
  4); \<open>forwarding\<close> is \<open>Some\<close> while the goroutine, having received from \<open>signalCh\<close>, waits
  to send on the unbuffered \<open>resultCh\<close>; \<open>resultCh\<close> lists the messages the reader of the
  channel has taken. A message is an empty struct: the model tags each with the signal
  that caused it, which no step reads.
\<close>

record bridge =
  registered :: "os_Signal list"
  signalCh :: "os_Signal list"
  forwarding :: "os_Signal option"
  resultCh :: "os_Signal list"

text \<open>\<^verbatim>\<open>signal.Notify(c, sigs...)\<close> relays the listed signals, and every signal if none is listed.\<close>

definition signal_relayed :: "os_Signal list \<Rightarrow> os_Signal \<Rightarrow> bool" where
  "signal_relayed hs sg = (hs = [] \<or> sg \<in> set hs)"

datatype step = Os_signal os_Signal | Forwarder_receive | Consumer_receive

text \<open>
  One step of the bridge. Package signal does not block: a relayed signal is put in
  \<open>signalCh\<close> if there is room and dropped otherwise. The goroutine's loop body is
  \<^verbatim>\<open><-signalCh; resultCh <- struct{}{}\<close>: it takes the oldest signal, whatever it is, and
  then hands one message to the reader. A step that would block leaves the state as it is.
\<close>

fun bridge_step :: "step \<Rightarrow> bridge \<Rightarrow> bridge" where
  "bridge_step (Os_signal sg) b =
     (if signal_relayed (registered b) sg \<and> length (signalCh b) < 4
      then b\<lparr>signalCh := signalCh b @ [sg]\<rparr> else b)"
| "bridge_step Forwarder_receive b =
     (case forwarding b of
        Some sg \<Rightarrow> b
      | None \<Rightarrow>
          (case signalCh b of
             [] \<Rightarrow> b
           | sg # rest \<Rightarrow> b\<lparr>signalCh := rest, forwarding := Some sg\<rparr>))"
| "bridge_step Consumer_receive b =
     (case forwarding b of
        None \<Rightarrow> b
      | Some sg \<Rightarrow> b\<lparr>forwarding := None, resultCh := resultCh b @ [sg]\<rparr>)"

definition bridge_run :: "step list \<Rightarrow> bridge \<Rightarrow> bridge" where
  "bridge_run steps b = foldl (\<lambda>b st. bridge_step st b) b steps"

text \<open>The schedule in which the reader drains the channel between signals.\<close>

definition drained :: "os_Signal list \<Rightarrow> step list" where
  "drained sigs = concat (map (\<lambda>sg. [Os_signal sg, Forwarder_receive, Consumer_receive]) sigs)"

text \<open>The signals that arrive in a schedule, and the signals a bridge holds or has handed on.\<close>

fun arrivals :: "step list \<Rightarrow> os_Signal list" where
  "arrivals [] = []"
| "arrivals (Os_signal sg # steps) = sg # arrivals steps"
| "arrivals (st # steps) = arrivals steps"

definition in_flight :: "bridge \<Rightarrow> os_Signal list" where
  "in_flight b =
     resultCh b @ (case forwarding b of None \<Rightarrow> [] | Some sg \<Rightarrow> [sg]) @ signalCh b"

definition signal_Notify :: "nat \<Rightarrow> os_Signal list \<Rightarrow> proc \<Rightarrow> proc" where
  "signal_Notify c sigs s = emit (Ev_signal_Notify c sigs) s"

definition signal_Reset :: "os_Signal list \<Rightarrow> proc \<Rightarrow> proc" where
  "signal_Reset sigs s = emit (Ev_signal_Reset sigs) s"

text \<open>
  \<^verbatim>\<open>makeShutdownCh\<close> returns the channel (its identity), the signals its cancel function
  resets, and, for the model, the bridge in the state in which the call leaves it.
\<close>

definition makeShutdownCh :: "env \<Rightarrow> proc \<Rightarrow> (nat \<times> os_Signal list \<times> bridge) \<times> proc" where
  "makeShutdownCh env s =
     (let resultCh_id = fresh s;
          signalCh_id = fresh s + 1;
          s = s\<lparr>fresh := fresh s + 2\<rparr>;
          handle = [];
          handle = handle @ ignoreSignals env;
          handle = handle @ forwardSignals env;
          s = signal_Notify signalCh_id handle s;
          s = emit (Ev_go_forwarder signalCh_id resultCh_id) s
      in ((resultCh_id, handle,
           \<lparr>registered = handle, signalCh = [], forwarding = None, resultCh = []\<rparr>), s))"

subsection \<open>Plugin directories\<close>

definition globalPluginDirs :: "env \<Rightarrow> io_Writer \<Rightarrow> proc \<Rightarrow> string list \<times> proc" where
  "globalPluginDirs env stderr s =
     (let ret = [] in
      case configDir env of
        Inl err \<Rightarrow>
          (ret, Fprintf env stderr (''Error finding global config directory: '' @ err) s)
      | Inr dir \<Rightarrow>
          (let machineDir = runtime_GOOS env @ ''_'' @ runtime_GOARCH env;
               ret = ret @ [filepath_Join env [dir, ''plugins'']];
               ret = ret @ [filepath_Join env [dir, ''plugins'', machineDir]]
           in (ret, s)))"

subsection \<open>The runner\<close>

definition log_SetOutput :: "io_Writer \<Rightarrow> proc \<Rightarrow> proc" where
  "log_SetOutput w s = emit (Ev_log_SetOutput w) (s\<lparr>log_output := w\<rparr>)"

definition plugin_CleanupClients :: "proc \<Rightarrow> proc" where
  "plugin_CleanupClients s = emit Ev_CleanupClients s"

definition file_Close :: "os_File \<Rightarrow> proc \<Rightarrow> proc" where
  "file_Close f s = emit (Ev_Close f) s"

text \<open>\<^verbatim>\<open>os.Pipe()\<close>: an error, or the two ends of a new, empty pipe.\<close>

definition os_Pipe :: "env \<Rightarrow> proc \<Rightarrow> (string + os_File \<times> os_File) \<times> proc" where
  "os_Pipe env s =
     (case os_Pipe_error env of
        Some err \<Rightarrow> (Inl err, emit (Ev_os_Pipe_failed err) s)
      | None \<Rightarrow>
          (let n = fresh s
           in (Inr (PipeR n, PipeW n),
               emit (Ev_os_Pipe (PipeR n) (PipeW n))
                 (s\<lparr>fresh := n + 1, written := (written s)(PipeW n := [])\<rparr>))))"

text \<open>The deferred calls of runner, with their arguments as evaluated by the defer statement.\<close>

datatype deferred =
    Defer_log_SetOutput io_Writer
  | Defer_CleanupClients
  | Defer_cancel "os_Signal list"
  | Defer_restore os_File os_File

fun run_deferred :: "deferred \<Rightarrow> proc \<Rightarrow> proc" where
  "run_deferred (Defer_log_SetOutput w) s = log_SetOutput w s"
| "run_deferred Defer_CleanupClients s = plugin_CleanupClients s"
| "run_deferred (Defer_cancel sigs) s = signal_Reset sigs s"
| "run_deferred (Defer_restore outW oldStderr) s = (file_Close outW s)\<lparr>os_Stderr := oldStderr\<rparr>"

text \<open>The deferred calls run last-in first-out: the list has the latest defer first.\<close>

definition run_defers :: "deferred list \<Rightarrow> proc \<Rightarrow> proc" where
  "run_defers ds s = foldl (\<lambda>s d. run_deferred d s) s ds"

fun perform :: "env \<Rightarrow> Meta \<Rightarrow> action \<Rightarrow> proc \<Rightarrow> proc" where
  "perform env meta (Ui_Output t) s = Fprintf env (Writer (Ui meta)) t s"
| "perform env meta (Ui_Error t) s = Fprintf env (ErrorWriter (Ui meta)) t s"
| "perform env meta (Stderr_Write t) s = Fprintf env (FileWriter (os_Stderr s)) t s"
| "perform env meta (Log_Print t) s = Fprintf env (log_output s) t s"
| "perform env meta (Stderr_Assign f) s = s\<lparr>os_Stderr := f\<rparr>"

text \<open>
  The goroutine of runner: it scans the read end of the pipe and prints every token,
  with a newline, to \<open>lf\<close>. It runs beside the command; the model lets it consume
  everything written to the pipe once the command is done.
\<close>

definition pipe_data :: "proc \<Rightarrow> os_File \<Rightarrow> string" where
  "pipe_data s outR = (case outR of PipeR n \<Rightarrow> written s (PipeW n) | _ \<Rightarrow> [])"

definition scanner :: "env \<Rightarrow> os_File \<Rightarrow> io_Writer \<Rightarrow> proc \<Rightarrow> proc" where
  "scanner env outR lf s =
     foldl (\<lambda>s tok. Fprintf env lf (tok @ [CHR 10]) s) s (Scanner_tokens env (pipe_data s outR))"

definition runner ::
  "env \<Rightarrow> string \<Rightarrow> string \<Rightarrow> string list \<Rightarrow> io_Writer \<Rightarrow> io_Writer \<Rightarrow> proc \<Rightarrow> outcome \<times> proc" where
  "runner env cmd dir args stdout stderr s =
     (let lf = (if logging_LogLevel env \<noteq> []
                then LevelFilter (logging_ValidLevels env) (logging_LogLevel env) stdout
                else Discard);
          s = log_SetOutput lf s;
          defers = [Defer_log_SetOutput (FileWriter (os_Stderr s))];
          defers = Defer_CleanupClients # defers;
          ((sdCh, cancel, br), s) = makeShutdownCh env s;
          defers = Defer_cancel cancel # defers;
          (dirs, s) = globalPluginDirs env stderr s;
          meta = \<lparr>Color = False, GlobalPluginDirs = dirs,
                  Ui = \<lparr>Writer = stdout, ErrorWriter = stderr\<rparr>,
                  OverrideDataDir = dir, ShutdownCh = sdCh\<rparr>;
          s = emit (Ev_Meta meta) s;
          f = registry s cmd;
          oldStderr = os_Stderr s
      in case os_Pipe env s of
           (Inl err, s) \<Rightarrow>
             (Return 1, run_defers defers (Fprintf env stderr (''error creating Pipe: '' @ err) s))
         | (Inr (outR, outW), s) \<Rightarrow>
             (let s = s\<lparr>os_Stderr := outW\<rparr>;
                  s = emit (Ev_go_scanner outR lf) s;
                  defers = Defer_restore outW oldStderr # defers
              in case f of
                   None \<Rightarrow> (Panic, run_defers defers (scanner env outR lf s))
                 | Some mk \<Rightarrow>
                     (case Command_Run env (mk meta) args of
                        (acts, code) \<Rightarrow>
                          (let s = emit (Ev_Run (mk meta) args) s;
                               s = foldl (\<lambda>s a. perform env meta a s) s acts;
                               s = scanner env outR lf s
                           in (Return code, run_defers defers s)))))"

definition Apply :: "env \<Rightarrow> string \<Rightarrow> string list \<Rightarrow> io_Writer \<Rightarrow> io_Writer \<Rightarrow> proc \<Rightarrow> outcome \<times> proc" where
  "Apply env datadir args stdout stderr s = runner env ''apply'' datadir args stdout stderr s"

definition Destroy :: "env \<Rightarrow> string \<Rightarrow> string list \<Rightarrow> io_Writer \<Rightarrow> io_Writer \<Rightarrow> proc \<Rightarrow> outcome \<times> proc" where
  "Destroy env datadir args stdout stderr s = runner env ''destroy'' datadir args stdout stderr s"

definition Init :: "env \<Rightarrow> string \<Rightarrow> string list \<Rightarrow> io_Writer \<Rightarrow> io_Writer \<Rightarrow> proc \<Rightarrow> outcome \<times> proc" where
  "Init env datadir args stdout stderr s = runner env ''init'' datadir args stdout stderr s"

subsection \<open>Version\<close>

definition Version :: "env \<Rightarrow> string" where
  "Version env =
     (let versionString = [];
          versionString = versionString @ ''Terraform v'' @ version_Version env;
          versionString =
            (if version_Prerelease env \<noteq> []
             then versionString @ ''-'' @ version_Prerelease env
             else versionString)
      in versionString)"

subsection \<open>Observations on a call\<close>

text \<open>The events a call of runner adds to the trace.\<close>

definition runner_events ::
  "env \<Rightarrow> string \<Rightarrow> string \<Rightarrow> string list \<Rightarrow> io_Writer \<Rightarrow> io_Writer \<Rightarrow> proc \<Rightarrow> event list" where
  "runner_events env cmd dir args stdout stderr s =
     drop (length (trace s)) (trace (snd (runner env cmd dir args stdout stderr s)))"




fun is_Run :: "event \<Rightarrow> bool" where
  "is_Run (Ev_Run c args) = True"
| "is_Run e = False"





definition handler_invoked :: "event list \<Rightarrow> bool" where
  "handler_invoked es = list_ex is_Run es"


text \<open>The Meta that a call of runner builds when it starts in state \<open>s\<close>.\<close>

definition runner_meta :: "env \<Rightarrow> string \<Rightarrow> io_Writer \<Rightarrow> io_Writer \<Rightarrow> proc \<Rightarrow> Meta" where
  "runner_meta env dir stdout stderr s =
     \<lparr>Color = False, GlobalPluginDirs = fst (globalPluginDirs env stderr s),
      Ui = \<lparr>Writer = stdout, ErrorWriter = stderr\<rparr>,
      OverrideDataDir = dir, ShutdownCh = fresh s\<rparr>"

text \<open>The bridge as a call of \<^verbatim>\<open>makeShutdownCh\<close> leaves it.\<close>

definition shutdown_bridge :: "env \<Rightarrow> proc \<Rightarrow> bridge" where
  "shutdown_bridge env s = snd (snd (fst (makeShutdownCh env s)))"

text \<open>What printing \<open>t\<close> to a writer appends to the caller's writer \<open>n\<close>.\<close>

fun printed :: "env \<Rightarrow> io_Writer \<Rightarrow> string \<Rightarrow> nat \<Rightarrow> string" where
  "printed env Discard t n = []"
| "printed env (LevelFilter levels minLevel w) t n =
     (if LevelFilter_Check env levels minLevel t then printed env w t n else [])"
| "printed env (FileWriter f) t n = []"
| "printed env (Sink m) t n = (if m = n then t else [])"

text \<open>What an action appends to the caller's writer \<open>n\<close> through the Ui of the Meta.\<close>

fun ui_printed :: "env \<Rightarrow> Meta \<Rightarrow> nat \<Rightarrow> action \<Rightarrow> string" where
  "ui_printed env meta n (Ui_Output t) = printed env (Writer (Ui meta)) t n"
| "ui_printed env meta n (Ui_Error t) = printed env (ErrorWriter (Ui meta)) t n"
| "ui_printed env meta n a = []"

subsection \<open>An example environment\<close>

text \<open>
  Concrete values for the parts outside exec.go, used to run the model: a join with
  slashes, a scanner that splits at newlines, a filter that lets every line through, and
  commands that print, write to \<^verbatim>\<open>os.Stderr\<close> and return different codes.
\<close>

fun example_Join :: "string list \<Rightarrow> string" where
  "example_Join [] = []"
| "example_Join [x] = x"
| "example_Join (x # xs) = x @ ''/'' @ example_Join xs"

fun example_tokens :: "string \<Rightarrow> string \<Rightarrow> string list" where
  "example_tokens cur [] = (if cur = [] then [] else [cur])"
| "example_tokens cur (c # cs) =
     (if c = CHR 10 then cur # example_tokens [] cs else example_tokens (cur @ [c]) cs)"

definition example_Run :: "cli_Command \<Rightarrow> string list \<Rightarrow> action list \<times> int" where
  "example_Run c args =
     (case c of
        ApplyCommand meta destroy \<Rightarrow>
          ([Log_Print ''[DEBUG] plan'', Stderr_Write (''warning: test'' @ [CHR 10]),
            Ui_Output ''Apply complete!''],
           if destroy then 2 else 0)
      | InitCommand meta \<Rightarrow>
          ([Ui_Output ''Initializing'', Stderr_Assign (Fd 7), Ui_Error ''no backend''], 3))"

definition example_env :: env where
  "example_env =
     \<lparr>logging_LogLevel = [],
      logging_ValidLevels = [''TRACE'', ''DEBUG'', ''INFO'', ''WARN'', ''ERROR''],
      LevelFilter_Check = (\<lambda>levels minLevel line. True),
      ignoreSignals = [2],
      forwardSignals = [15],
      configDir = Inr ''/home/u/.terraform.d'',
      runtime_GOOS = ''linux'',
      runtime_GOARCH = ''amd64'',
      filepath_Join = example_Join,
      os_Pipe_error = None,
      Scanner_tokens = example_tokens [],
      Command_Run = example_Run,
      version_Version = ''0.11.8'',
      version_Prerelease = []\<rparr>"

definition example_proc :: proc where
  "example_proc =
     \<lparr>os_Stderr = Fd 2, log_output = FileWriter (Fd 2), registry = commands,
      written = (\<lambda>f. []), sinks = (\<lambda>n. []), fresh = 0, trace = []\<rparr>"

section \<open>Frame lemmas\<close>

text \<open>What printing, the command's actions and the scanner leave unchanged.\<close>

lemma Fprintf_trace [simp]: "trace (Fprintf env w t s) = trace s"
  by (induction w) simp_all

lemma Fprintf_os_Stderr [simp]: "os_Stderr (Fprintf env w t s) = os_Stderr s"
  by (induction w) simp_all

lemma Fprintf_registry [simp]: "registry (Fprintf env w t s) = registry s"
  by (induction w) simp_all

lemma Fprintf_fresh [simp]: "fresh (Fprintf env w t s) = fresh s"
  by (induction w) simp_all

lemma perform_trace [simp]: "trace (perform env meta a s) = trace s"
  by (cases a) simp_all

lemma perform_registry [simp]: "registry (perform env meta a s) = registry s"
  by (cases a) simp_all

lemma actions_trace [simp]: "trace (foldl (\<lambda>s a. perform env meta a s) s acts) = trace s"
  by (induction acts arbitrary: s) simp_all

lemma actions_registry [simp]:
  "registry (foldl (\<lambda>s a. perform env meta a s) s acts) = registry s"
  by (induction acts arbitrary: s) simp_all

lemma tokens_trace:
  "trace (foldl (\<lambda>s tok. Fprintf env lf (f tok) s) s toks) = trace s"
  by (induction toks arbitrary: s) simp_all

lemma tokens_os_Stderr:
  "os_Stderr (foldl (\<lambda>s tok. Fprintf env lf (f tok) s) s toks) = os_Stderr s"
  by (induction toks arbitrary: s) simp_all

lemma tokens_registry:
  "registry (foldl (\<lambda>s tok. Fprintf env lf (f tok) s) s toks) = registry s"
  by (induction toks arbitrary: s) simp_all

lemma scanner_trace [simp]: "trace (scanner env outR lf s) = trace s"
  by (simp add: scanner_def tokens_trace)

lemma scanner_os_Stderr [simp]: "os_Stderr (scanner env outR lf s) = os_Stderr s"
  by (simp add: scanner_def tokens_os_Stderr)

lemma scanner_registry [simp]: "registry (scanner env outR lf s) = registry s"
  by (simp add: scanner_def tokens_registry)

lemmas runner_steps =
  runner_def Let_def makeShutdownCh_def globalPluginDirs_def os_Pipe_def run_defers_def
  emit_def log_SetOutput_def plugin_CleanupClients_def signal_Notify_def signal_Reset_def
  file_Close_def

lemma runner_outcome:
  "fst (runner env cmd dir args stdout stderr s) =
     (case os_Pipe_error env of
        Some err \<Rightarrow> Return 1
      | None \<Rightarrow>
          (case registry s cmd of
             None \<Rightarrow> Panic
           | Some mk \<Rightarrow> Return (snd (Command_Run env (mk (runner_meta env dir stdout stderr s)) args))))"
  by (simp add: runner_steps runner_meta_def split: sum.splits option.splits prod.splits)

lemma runner_os_Stderr:
  "os_Stderr (snd (runner env cmd dir args stdout stderr s)) = os_Stderr s"
  by (simp add: runner_steps split: sum.splits option.splits prod.splits)

lemma runner_registry:
  "registry (snd (runner env cmd dir args stdout stderr s)) = registry s"
  by (simp add: runner_steps split: sum.splits option.splits prod.splits)

lemma events_pipe_failure:
  "os_Pipe_error env = Some err \<Longrightarrow>
   runner_events env cmd dir args stdout stderr s =
     [Ev_log_SetOutput
        (if logging_LogLevel env \<noteq> []
         then LevelFilter (logging_ValidLevels env) (logging_LogLevel env) stdout else Discard),
      Ev_signal_Notify (fresh s + 1) (ignoreSignals env @ forwardSignals env),
      Ev_go_forwarder (fresh s + 1) (fresh s),
      Ev_Meta (runner_meta env dir stdout stderr s),
      Ev_os_Pipe_failed err,
      Ev_signal_Reset (ignoreSignals env @ forwardSignals env),
      Ev_CleanupClients,
      Ev_log_SetOutput (FileWriter (os_Stderr s))]"
  by (simp add: runner_events_def runner_steps runner_meta_def
      split: sum.splits option.splits prod.splits)

lemma events_unknown_name:
  "os_Pipe_error env = None \<Longrightarrow> registry s cmd = None \<Longrightarrow>
   runner_events env cmd dir args stdout stderr s =
     [Ev_log_SetOutput
        (if logging_LogLevel env \<noteq> []
         then LevelFilter (logging_ValidLevels env) (logging_LogLevel env) stdout else Discard),
      Ev_signal_Notify (fresh s + 1) (ignoreSignals env @ forwardSignals env),
      Ev_go_forwarder (fresh s + 1) (fresh s),
      Ev_Meta (runner_meta env dir stdout stderr s),
      Ev_os_Pipe (PipeR (fresh s + 2)) (PipeW (fresh s + 2)),
      Ev_go_scanner (PipeR (fresh s + 2))
        (if logging_LogLevel env \<noteq> []
         then LevelFilter (logging_ValidLevels env) (logging_LogLevel env) stdout else Discard),
      Ev_Close (PipeW (fresh s + 2)),
      Ev_signal_Reset (ignoreSignals env @ forwardSignals env),
      Ev_CleanupClients,
      Ev_log_SetOutput (FileWriter (os_Stderr s))]"
  by (simp add: runner_events_def runner_steps runner_meta_def
      split: sum.splits option.splits prod.splits)

lemma events_dispatch:
  "os_Pipe_error env = None \<Longrightarrow> registry s cmd = Some mk \<Longrightarrow>
   runner_events env cmd dir args stdout stderr s =
     [Ev_log_SetOutput
        (if logging_LogLevel env \<noteq> []
         then LevelFilter (logging_ValidLevels env) (logging_LogLevel env) stdout else Discard),
      Ev_signal_Notify (fresh s + 1) (ignoreSignals env @ forwardSignals env),
      Ev_go_forwarder (fresh s + 1) (fresh s),
      Ev_Meta (runner_meta env dir stdout stderr s),
      Ev_os_Pipe (PipeR (fresh s + 2)) (PipeW (fresh s + 2)),
      Ev_go_scanner (PipeR (fresh s + 2))
        (if logging_LogLevel env \<noteq> []
         then LevelFilter (logging_ValidLevels env) (logging_LogLevel env) stdout else Discard),
      Ev_Run (mk (runner_meta env dir stdout stderr s)) args,
      Ev_Close (PipeW (fresh s + 2)),
      Ev_signal_Reset (ignoreSignals env @ forwardSignals env),
      Ev_CleanupClients,
      Ev_log_SetOutput (FileWriter (os_Stderr s))]"
  by (simp add: runner_events_def runner_steps runner_meta_def
      split: sum.splits option.splits prod.splits)

section \<open>Output with no log level\<close>

text \<open>
  With no log level the output of package log and the target of the scanner are
  \<^verbatim>\<open>ioutil.Discard\<close>, and the caller's writers receive runner's own reports and the
  handler's Ui output only.
\<close>

lemma Fprintf_sinks: "sinks (Fprintf env w t s) n = sinks s n @ printed env w t n"
  by (induction w) simp_all

lemma Fprintf_log_output [simp]: "log_output (Fprintf env w t s) = log_output s"
  by (induction w) simp_all

lemma perform_log_output [simp]: "log_output (perform env meta a s) = log_output s"
  by (cases a) simp_all

lemma perform_sinks_silent:
  "log_output s = Discard \<Longrightarrow>
   sinks (perform env meta a s) n = sinks s n @ ui_printed env meta n a"
  by (cases a) (simp_all add: Fprintf_sinks)

lemma actions_sinks_silent:
  "log_output s = Discard \<Longrightarrow>
   sinks (foldl (\<lambda>s a. perform env meta a s) s acts) n =
     sinks s n @ concat (map (ui_printed env meta n) acts)"
proof (induction acts arbitrary: s)
  case Nil
  then show ?case by simp
next
  case (Cons a acts)
  have "log_output (perform env meta a s) = Discard"
    using Cons.prems by simp
  then show ?case
    using Cons.IH [of "perform env meta a s"] perform_sinks_silent [OF Cons.prems]
    by simp
qed

lemma scanner_Discard [simp]: "scanner env outR Discard s = s"
proof -
  have "foldl (\<lambda>s tok. Fprintf env Discard (f tok) s) s toks = s" for f toks
    by (induction toks) simp_all
  then show ?thesis
    by (simp add: scanner_def)
qed

lemma runner_sinks_silent:
  assumes "logging_LogLevel env = []"
  shows "sinks (snd (runner env cmd dir args stdout stderr s)) n =
     sinks s n @
     (case configDir env of
        Inl err \<Rightarrow> printed env stderr (''Error finding global config directory: '' @ err) n
      | Inr base \<Rightarrow> []) @
     (case os_Pipe_error env of
        Some err \<Rightarrow> printed env stderr (''error creating Pipe: '' @ err) n
      | None \<Rightarrow>
          (case registry s cmd of
             None \<Rightarrow> []
           | Some mk \<Rightarrow>
               concat (map (ui_printed env (runner_meta env dir stdout stderr s) n)
                 (fst (Command_Run env (mk (runner_meta env dir stdout stderr s)) args)))))"
  using assms
  by (simp add: runner_steps runner_meta_def Fprintf_sinks actions_sinks_silent
      split: sum.splits option.splits prod.splits)

section \<open>Schedules of the shutdown channel\<close>

text \<open>
  In every schedule the signals in flight (handed to the reader, held by the goroutine or
  waiting in the channel) grow at their end only, by signals that arrive and are relayed:
  so the messages the reader takes follow the order of arrival, one at most for a signal.
\<close>

lemma bridge_step_registered [simp]: "registered (bridge_step st b) = registered b"
  by (cases st) (simp_all split: option.splits list.splits)

lemma bridge_step_in_flight:
  "\<exists>acc. subseq acc (filter (signal_relayed (registered b)) (arrivals [st])) \<and>
     in_flight (bridge_step st b) = in_flight b @ acc"
proof (cases st)
  case (Os_signal sg)
  then show ?thesis
    by (auto simp: in_flight_def split: option.splits)
next
  case Forwarder_receive
  then show ?thesis
    by (auto simp: in_flight_def split: option.splits list.splits)
next
  case Consumer_receive
  then show ?thesis
    by (auto simp: in_flight_def split: option.splits list.splits)
qed

lemma arrivals_Cons: "arrivals (st # steps) = arrivals [st] @ arrivals steps"
  by (cases st) simp_all

lemma bridge_run_Cons: "bridge_run (st # steps) b = bridge_run steps (bridge_step st b)"
  by (simp add: bridge_run_def)

lemma bridge_run_in_flight:
  "\<exists>acc. subseq acc (filter (signal_relayed (registered b)) (arrivals steps)) \<and>
     in_flight (bridge_run steps b) = in_flight b @ acc"
proof (induction steps arbitrary: b)
  case Nil
  then show ?case by (simp add: bridge_run_def)
next
  case (Cons st steps)
  obtain x where x: "subseq x (filter (signal_relayed (registered b)) (arrivals [st]))"
    "in_flight (bridge_step st b) = in_flight b @ x"
    using bridge_step_in_flight by blast
  obtain y where y: "subseq y (filter (signal_relayed (registered b)) (arrivals steps))"
    "in_flight (bridge_run steps (bridge_step st b)) = in_flight (bridge_step st b) @ y"
    using Cons.IH [of "bridge_step st b"] by auto
  have "subseq (x @ y) (filter (signal_relayed (registered b)) (arrivals (st # steps)))"
    using x(1) y(1) by (subst arrivals_Cons) (simp add: list_emb_append_mono)
  then show ?case
    using x(2) y(2) by (auto simp: bridge_run_Cons)
qed

lemma bridge_run_subseq:
  assumes "in_flight b = []"
  shows "subseq (resultCh (bridge_run steps b))
           (filter (signal_relayed (registered b)) (arrivals steps))"
proof -
  obtain acc where a: "subseq acc (filter (signal_relayed (registered b)) (arrivals steps))"
    "in_flight (bridge_run steps b) = acc"
    using bridge_run_in_flight [of b steps] assms by auto
  have "prefix (resultCh (bridge_run steps b)) (in_flight (bridge_run steps b))"
    by (simp add: in_flight_def)
  then have "subseq (resultCh (bridge_run steps b)) acc"
    using a(2) by (simp add: prefix_imp_subseq)
  then show ?thesis
    using a(1) by (rule subseq_order.trans)
qed

text \<open>
  When the reader takes each message before the next signal arrives, the channel is empty
  and the goroutine idle between signals, and every relayed signal adds one message.
\<close>

lemma drained_Cons:
  "bridge_run (drained (sg # sigs)) b =
     bridge_run (drained sigs)
       (bridge_step Consumer_receive (bridge_step Forwarder_receive (bridge_step (Os_signal sg) b)))"
  by (simp add: bridge_run_def drained_def)

lemma drained_result:
  "forwarding b = None \<Longrightarrow> signalCh b = [] \<Longrightarrow>
   resultCh (bridge_run (drained sigs) b) =
     resultCh b @ filter (signal_relayed (registered b)) sigs"
proof (induction sigs arbitrary: b)
  case Nil
  then show ?case by (simp add: bridge_run_def drained_def)
next
  case (Cons sg sigs)
  define b' where
    "b' = bridge_step Consumer_receive (bridge_step Forwarder_receive (bridge_step (Os_signal sg) b))"
  have b: "forwarding b' = None" "signalCh b' = []" "registered b' = registered b"
    "resultCh b' = resultCh b @ (if signal_relayed (registered b) sg then [sg] else [])"
    using Cons.prems by (simp_all add: b'_def)
  have "bridge_run (drained (sg # sigs)) b = bridge_run (drained sigs) b'"
    by (simp only: drained_Cons b'_def)
  then show ?case
    using Cons.IH [OF b(1) b(2)] by (simp add: b(3) b(4))
qed

section \<open>The claims\<close>

subsection \<open>Unknown operation names\<close>




subsection \<open>Signals and shutdown messages\<close>

text \<open>
  The signal 2 is in the ignore set and not in the forward set of the example; received
  by the bridge, it puts a message on the shutdown channel. And of five signals of the
  forward set that arrive before the goroutine takes the first, the fifth finds the
  channel full and is dropped: four messages follow.
\<close>

theorem bridge_ignore_signal_counterexample:
  "2 \<in> set (ignoreSignals example_env) \<and> 2 \<notin> set (forwardSignals example_env) \<and>
   resultCh (bridge_run (drained [2]) (shutdown_bridge example_env example_proc)) = [2] \<and>
   15 \<in> set (forwardSignals example_env) \<and>
   resultCh (bridge_run
     [Os_signal 15, Os_signal 15, Os_signal 15, Os_signal 15, Os_signal 15,
      Forwarder_receive, Consumer_receive, Forwarder_receive, Consumer_receive,
      Forwarder_receive, Consumer_receive, Forwarder_receive, Consumer_receive,
      Forwarder_receive, Consumer_receive]
     (shutdown_bridge example_env example_proc)) = [15, 15, 15, 15]"
  by (simp add: example_env_def shutdown_bridge_def makeShutdownCh_def Let_def
      bridge_run_def drained_def signal_relayed_def)

text \<open>
  Claim C2, as the code has it. \<^verbatim>\<open>makeShutdownCh\<close> registers the ignore set and the forward
  set together, and its goroutine sends a message for whatever it receives. In every
  schedule the messages on the shutdown channel stem, in the order of receipt and one at
  most for a signal, from the signals that \<^verbatim>\<open>signal.Notify\<close> relays, of the ignore set as of
  the forward set. With the reader draining between signals there is exactly one message
  for each such signal.
\<close>

theorem bridge_forwards_every_signal:
  "registered (shutdown_bridge env s) = ignoreSignals env @ forwardSignals env \<and>
   subseq (resultCh (bridge_run steps (shutdown_bridge env s)))
     (filter (signal_relayed (ignoreSignals env @ forwardSignals env)) (arrivals steps)) \<and>
   resultCh (bridge_run (drained sigs) (shutdown_bridge env s)) =
     filter (signal_relayed (ignoreSignals env @ forwardSignals env)) sigs"
proof -
  have b: "forwarding (shutdown_bridge env s) = None" "signalCh (shutdown_bridge env s) = []"
    "resultCh (shutdown_bridge env s) = []"
    "registered (shutdown_bridge env s) = ignoreSignals env @ forwardSignals env"
    by (simp_all add: shutdown_bridge_def makeShutdownCh_def Let_def)
  then have "in_flight (shutdown_bridge env s) = []"
    by (simp add: in_flight_def)
  then show ?thesis
    using b drained_result [of "shutdown_bridge env s" sigs]
      bridge_run_subseq [of "shutdown_bridge env s" steps]
    by simp
qed

theorem bridge_forwards_every_signal_witness:
  "ignoreSignals example_env = [2] \<and> forwardSignals example_env = [15] \<and>
   resultCh (bridge_run (drained [2, 15, 3, 15, 2]) (shutdown_bridge example_env example_proc)) =
     [2, 15, 15, 2] \<and>
   subseq (resultCh (bridge_run [Os_signal 15, Forwarder_receive, Os_signal 2, Consumer_receive]
       (shutdown_bridge example_env example_proc))) [15, 2]"
  using bridge_forwards_every_signal [of example_env example_proc
      "[Os_signal 15, Forwarder_receive, Os_signal 2, Consumer_receive]" "[2, 15, 3, 15, 2]"]
  by (simp add: example_env_def signal_relayed_def)

subsection \<open>Failure to create the pipe\<close>




subsection \<open>A log level outside the valid levels\<close>




subsection \<open>The error stream is restored\<close>

text \<open>
  Claim C5. For every operation name in the table and every argument list, runner returns
  an exit code, and \<^verbatim>\<open>os.Stderr\<close> is then the very file it was before the call: whether the
  pipe could be created or not, and whatever the handler did, assigning \<^verbatim>\<open>os.Stderr\<close> included.
\<close>

theorem runner_restores_stderr:
  "registry s cmd = Some mk \<Longrightarrow>
   (\<exists>code. fst (runner env cmd dir args stdout stderr s) = Return code) \<and>
   os_Stderr (snd (runner env cmd dir args stdout stderr s)) = os_Stderr s"
  by (simp add: runner_outcome runner_os_Stderr split: option.splits)

theorem runner_restores_stderr_witness:
  "registry example_proc ''init'' = Some (\<lambda>meta. InitCommand meta) \<and>
   fst (runner example_env ''init'' ''data'' [] (Sink 1) (Sink 2) example_proc) = Return 3 \<and>
   os_Stderr (snd (runner example_env ''init'' ''data'' [] (Sink 1) (Sink 2) example_proc)) = Fd 2"
  using runner_restores_stderr [of example_proc "''init''" "\<lambda>meta. InitCommand meta"
      example_env "''data''" "[]" "Sink 1" "Sink 2"]
  by (simp add: runner_outcome example_env_def example_proc_def example_Run_def commands_def)

subsection \<open>Silence without a log level\<close>

text \<open>
  Claim C6. When \<^verbatim>\<open>logging.LogLevel()\<close> is empty, runner makes \<^verbatim>\<open>ioutil.Discard\<close> the output of
  package log and the target of the scanner. Every writer of the caller then holds after
  the call what it held before, followed by what runner itself reported to the stderr
  writer (a failure of \<^verbatim>\<open>configDir\<close> or of \<^verbatim>\<open>os.Pipe\<close>) and by what the handler printed
  through its Ui: whatever text the handler wrote to \<^verbatim>\<open>os.Stderr\<close> or printed through
  package log, none of it reaches the stdout writer or any other writer of the caller.
\<close>

theorem runner_silent_by_default:
  "logging_LogLevel env = [] \<Longrightarrow>
   hd (runner_events env cmd dir args stdout stderr s) = Ev_log_SetOutput Discard \<and>
   (os_Pipe_error env = None \<longrightarrow>
      Ev_go_scanner (PipeR (fresh s + 2)) Discard
        \<in> set (runner_events env cmd dir args stdout stderr s)) \<and>
   sinks (snd (runner env cmd dir args stdout stderr s)) n =
     sinks s n @
     (case configDir env of
        Inl err \<Rightarrow> printed env stderr (''Error finding global config directory: '' @ err) n
      | Inr base \<Rightarrow> []) @
     (case os_Pipe_error env of
        Some err \<Rightarrow> printed env stderr (''error creating Pipe: '' @ err) n
      | None \<Rightarrow>
          (case registry s cmd of
             None \<Rightarrow> []
           | Some mk \<Rightarrow>
               concat (map (ui_printed env (runner_meta env dir stdout stderr s) n)
                 (fst (Command_Run env (mk (runner_meta env dir stdout stderr s)) args)))))"
proof -
  assume l: "logging_LogLevel env = []"
  have "hd (runner_events env cmd dir args stdout stderr s) = Ev_log_SetOutput Discard"
    using l
    by (cases "os_Pipe_error env"; cases "registry s cmd")
      (simp_all add: events_pipe_failure events_unknown_name events_dispatch)
  moreover have "os_Pipe_error env = None \<longrightarrow>
      Ev_go_scanner (PipeR (fresh s + 2)) Discard
        \<in> set (runner_events env cmd dir args stdout stderr s)"
    using l
    by (cases "registry s cmd") (simp_all add: events_unknown_name events_dispatch)
  ultimately show ?thesis
    using runner_sinks_silent [OF l] by simp
qed

theorem runner_silent_by_default_witness:
  "logging_LogLevel example_env = [] \<and>
   fst (Command_Run example_env
     (ApplyCommand (runner_meta example_env ''data'' (Sink 1) (Sink 2) example_proc) False) []) =
     [Log_Print ''[DEBUG] plan'', Stderr_Write (''warning: test'' @ [CHR 10]),
      Ui_Output ''Apply complete!''] \<and>
   sinks (snd (runner example_env ''apply'' ''data'' [] (Sink 1) (Sink 2) example_proc)) 1 =
     ''Apply complete!'' \<and>
   sinks (snd (runner example_env ''apply'' ''data'' [] (Sink 1) (Sink 2) example_proc)) 2 = [] \<and>
   sinks (snd (runner example_env ''apply'' ''data'' [] (Sink 1) (Sink 1) example_proc)) 1 =
     ''Apply complete!''"
  using runner_silent_by_default [of example_env "''apply''" "''data''" "[]" "Sink 1" "Sink 2" example_proc 1]
    runner_silent_by_default [of example_env "''apply''" "''data''" "[]" "Sink 1" "Sink 2" example_proc 2]
    runner_silent_by_default [of example_env "''apply''" "''data''" "[]" "Sink 1" "Sink 1" example_proc 1]
  by (simp add: runner_meta_def example_env_def example_proc_def example_Run_def commands_def)

subsection \<open>The handler's exit code\<close>

text \<open>
  Claim C7. For every operation name in the table, once the pipe is there, the handler made
  by the table entry from runner's Meta is run with the arguments, and the int its Run
  returns is what runner returns.
\<close>

theorem runner_returns_handler_code:
  "registry s cmd = Some mk \<Longrightarrow> os_Pipe_error env = None \<Longrightarrow>
   fst (runner env cmd dir args stdout stderr s) =
     Return (snd (Command_Run env (mk (runner_meta env dir stdout stderr s)) args)) \<and>
   Ev_Run (mk (runner_meta env dir stdout stderr s)) args
     \<in> set (runner_events env cmd dir args stdout stderr s)"
  by (simp add: runner_outcome events_dispatch)

theorem runner_returns_handler_code_witness:
  "registry example_proc ''destroy'' = Some (\<lambda>meta. ApplyCommand meta True) \<and>
   os_Pipe_error example_env = None \<and>
   snd (Command_Run example_env
     (ApplyCommand (runner_meta example_env ''data'' (Sink 1) (Sink 2) example_proc) True)
     [''-auto-approve'']) = 2 \<and>
   fst (runner example_env ''destroy'' ''data'' [''-auto-approve''] (Sink 1) (Sink 2) example_proc)
     = Return 2"
  using runner_returns_handler_code [of example_proc "''destroy''" "\<lambda>meta. ApplyCommand meta True"
      example_env "''data''" "[''-auto-approve'']" "Sink 1" "Sink 2"]
  by (simp add: example_env_def example_proc_def example_Run_def commands_def)

subsection \<open>Plugin directories\<close>

text \<open>
  Claim C8. When \<^verbatim>\<open>configDir\<close> gives a directory \<open>base\<close>, \<^verbatim>\<open>globalPluginDirs\<close> returns the two
  paths \<^verbatim>\<open>filepath.Join(base, "plugins")\<close> and \<^verbatim>\<open>filepath.Join(base, "plugins", GOOS_GOARCH)\<close>, in
  this order, and prints nothing. When \<^verbatim>\<open>configDir\<close> fails, it prints the error to the stderr
  writer and returns the empty list; runner then goes on with no plugin directories in its
  Meta, runs the handler and returns its exit code.
\<close>

theorem globalPluginDirs_result:
  "(configDir env = Inr base \<longrightarrow>
      globalPluginDirs env stderr s =
        ([filepath_Join env [base, ''plugins''],
          filepath_Join env [base, ''plugins'', runtime_GOOS env @ ''_'' @ runtime_GOARCH env]], s)) \<and>
   (configDir env = Inl err \<longrightarrow>
      globalPluginDirs env stderr s =
        ([], Fprintf env stderr (''Error finding global config directory: '' @ err) s) \<and>
      GlobalPluginDirs (runner_meta env dir stdout stderr s) = [] \<and>
      (os_Pipe_error env = None \<longrightarrow> registry s cmd = Some mk \<longrightarrow>
         handler_invoked (runner_events env cmd dir args stdout stderr s) \<and>
         fst (runner env cmd dir args stdout stderr s) =
           Return (snd (Command_Run env (mk (runner_meta env dir stdout stderr s)) args))))"
  by (simp add: globalPluginDirs_def runner_meta_def runner_outcome events_dispatch
      handler_invoked_def)

theorem globalPluginDirs_result_witness:
  "configDir example_env = Inr ''/home/u/.terraform.d'' \<and>
   globalPluginDirs example_env (Sink 2) example_proc =
     ([''/home/u/.terraform.d/plugins'', ''/home/u/.terraform.d/plugins/linux_amd64''],
      example_proc) \<and>
   configDir (example_env\<lparr>configDir := Inl ''$HOME is not defined''\<rparr>) = Inl ''$HOME is not defined'' \<and>
   fst (globalPluginDirs (example_env\<lparr>configDir := Inl ''$HOME is not defined''\<rparr>)
     (Sink 2) example_proc) = [] \<and>
   sinks (snd (globalPluginDirs (example_env\<lparr>configDir := Inl ''$HOME is not defined''\<rparr>)
     (Sink 2) example_proc)) 2 = ''Error finding global config directory: $HOME is not defined'' \<and>
   fst (runner (example_env\<lparr>configDir := Inl ''$HOME is not defined''\<rparr>)
     ''init'' ''data'' [] (Sink 1) (Sink 2) example_proc) = Return 3"
  using globalPluginDirs_result [of example_env "''/home/u/.terraform.d''" "Sink 2" example_proc]
    globalPluginDirs_result [of "example_env\<lparr>configDir := Inl ''$HOME is not defined''\<rparr>"
      _ "Sink 2" example_proc "''$HOME is not defined''" "''data''" "Sink 1" "''init''"
      "\<lambda>meta. InitCommand meta" "[]"]
  by (simp add: example_env_def example_proc_def example_Run_def commands_def)

subsection \<open>The version string\<close>

text \<open>
  Claim C9. \<^verbatim>\<open>Version\<close> returns \<open>Terraform v\<close> followed by the version when the prerelease is
  empty, and the same followed by a hyphen and the prerelease when it is not. It is a
  function of the two strings alone: it takes and returns no process state.
\<close>

theorem Version_format:
  "(version_Prerelease env = [] \<longrightarrow> Version env = ''Terraform v'' @ version_Version env) \<and>
   (version_Prerelease env \<noteq> [] \<longrightarrow>
      Version env = ''Terraform v'' @ version_Version env @ ''-'' @ version_Prerelease env)"
  by (simp add: Version_def)

theorem Version_format_witness:
  "version_Prerelease example_env = [] \<and>
   Version example_env = ''Terraform v0.11.8'' \<and>
   version_Prerelease (example_env\<lparr>version_Prerelease := ''beta1''\<rparr>) \<noteq> [] \<and>
   Version (example_env\<lparr>version_Prerelease := ''beta1''\<rparr>) = ''Terraform v0.11.8-beta1''"
  using Version_format [of example_env]
    Version_format [of "example_env\<lparr>version_Prerelease := ''beta1''\<rparr>"]
  by (simp add: example_env_def)

subsection \<open>The command table\<close>

text \<open>
  Claim C10. The table \<^verbatim>\<open>commands\<close> holds the three names \<open>apply\<close>, \<open>destroy\<close> and \<open>init\<close> and no
  other; the entry for \<open>destroy\<close> makes the ApplyCommand that \<open>apply\<close> makes, with Destroy true;
  a call of runner leaves the table as it was; and \<^verbatim>\<open>Apply\<close>, \<^verbatim>\<open>Destroy\<close> and \<^verbatim>\<open>Init\<close> call
  runner with a name of the table, so that with the table in place none of them panics.
\<close>

theorem commands_registry:
  "dom commands = {''apply'', ''destroy'', ''init''} \<and>
   commands ''apply'' = Some (\<lambda>meta. ApplyCommand meta False) \<and>
   commands ''destroy'' = Some (\<lambda>meta. ApplyCommand meta True) \<and>
   commands ''init'' = Some (\<lambda>meta. InitCommand meta) \<and>
   registry (snd (runner env cmd dir args stdout stderr s)) = registry s \<and>
   Apply env dir args stdout stderr s = runner env ''apply'' dir args stdout stderr s \<and>
   Destroy env dir args stdout stderr s = runner env ''destroy'' dir args stdout stderr s \<and>
   Init env dir args stdout stderr s = runner env ''init'' dir args stdout stderr s \<and>
   ''apply'' \<in> dom commands \<and> ''destroy'' \<in> dom commands \<and> ''init'' \<in> dom commands \<and>
   (registry s = commands \<longrightarrow>
      fst (Apply env dir args stdout stderr s) \<noteq> Panic \<and>
      fst (Destroy env dir args stdout stderr s) \<noteq> Panic \<and>
      fst (Init env dir args stdout stderr s) \<noteq> Panic)"
proof -
  have d: "dom commands = {''apply'', ''destroy'', ''init''}"
    by (auto simp: commands_def)
  have c: "commands ''apply'' = Some (\<lambda>meta. ApplyCommand meta False)"
    "commands ''destroy'' = Some (\<lambda>meta. ApplyCommand meta True)"
    "commands ''init'' = Some (\<lambda>meta. InitCommand meta)"
    by (simp_all add: commands_def)
  have "registry s = commands \<longrightarrow>
      fst (Apply env dir args stdout stderr s) \<noteq> Panic \<and>
      fst (Destroy env dir args stdout stderr s) \<noteq> Panic \<and>
      fst (Init env dir args stdout stderr s) \<noteq> Panic"
    by (simp add: Apply_def Destroy_def Init_def runner_outcome c split: option.splits)
  with d c show ?thesis
    by (simp add: runner_registry Apply_def Destroy_def Init_def)
qed

theorem commands_registry_witness:
  "registry example_proc = commands \<and>
   registry (snd (Destroy example_env ''data'' [] (Sink 1) (Sink 2) example_proc)) = commands \<and>
   registry example_proc ''destroy'' = Some (\<lambda>meta. ApplyCommand meta True) \<and>
   fst (Destroy example_env ''data'' [] (Sink 1) (Sink 2) example_proc) = Return 2"
  using commands_registry [of example_env "''destroy''" "''data''" "[]" "Sink 1" "Sink 2" example_proc]
  by (simp add: runner_outcome example_env_def example_proc_def example_Run_def)

end
